theory Spec2Isabelle
  imports Main "HOL-Library.Sublist"
begin

section \<open>Element trees of the theme configuration\<close>

text \<open>
  \<^verbatim>\<open>theme.config.tsx\<close> is a single object literal whose \<open>head\<close>, \<open>logo\<close> and
  \<open>footer.content\<close> are JSX expressions. A JSX expression evaluates to a tree of elements:
  a tag, its attributes in source order, and its children. An attribute value is a string
  literal, an object literal of string fields (\<open>style={{ height: '2.5rem' }}\<close>) or a bare
  flag (\<open>jsx\<close>). A child is an element, a run of text, a number produced by an embedded
  expression, or (for \<open><style jsx>\<close>) a style sheet.

  Strings are byte strings in UTF-8: the three characters of the file outside ASCII are
  written by their bytes.
\<close>

datatype scheme = Dark | Light

datatype media_query = PrefersColorScheme scheme

text \<open>A rule of the style sheet: its enclosing \<open>@media\<close> query if any, the class its
  selector names, its declarations.\<close>

datatype css_rule = Rule "media_query option" string "(string \<times> string) list"

datatype attr_value = Str string | Obj "(string \<times> string) list" | Flag

datatype node =
    Element string "(string \<times> attr_value) list" "node list"
  | Text string
  | Num int
  | Css "css_rule list"

definition rightwards_arrow :: string where
  "rightwards_arrow = [CHR 0xE2, CHR 0x86, CHR 0x92]"

definition copyright_sign :: string where
  "copyright_sign = [CHR 0xC2, CHR 0xA9]"

definition nbsp :: string where
  "nbsp = [CHR 0xC2, CHR 0xA0]"

section \<open>The clock\<close>

text \<open>
  The footer evaluates \<open>new Date().getFullYear()\<close> when the module is loaded, that is once
  per build. The reading of the clock is an input of the model: a calendar date in local
  time (year, month from 1 to 12, day of the month), of which \<open>getFullYear\<close> returns
  the year.
\<close>

record js_date =
  fullYear :: int
  month :: nat
  day :: nat

definition getFullYear :: "js_date \<Rightarrow> int" where
  "getFullYear d = fullYear d"

section \<open>theme.config.tsx\<close>

record DocsThemeConfig =
  head :: "node list"
  logo :: "node list"
  project_link :: string
  chat_link :: string
  editLink_content :: string
  feedback_content :: string
  feedback_labels :: string
  docsRepositoryBase :: string
  footer_content :: node

definition config_head :: "node list" where
  "config_head =
    [Element ''meta'' [(''name'', Str ''viewport''),
                       (''content'', Str ''width=device-width, initial-scale=1.0'')] [],
     Element ''meta'' [(''name'', Str ''description''),
                       (''content'', Str ''Rig Crate Documentation'')] [],
     Element ''meta'' [(''name'', Str ''author''), (''content'', Str ''0xPlaygrounds'')] [],
     Element ''meta'' [(''name'', Str ''keywords''),
                       (''content'', Str ''Rig, Docs, 0xPlaygrounds'')] [],
     Element ''meta'' [(''name'', Str ''robots''), (''content'', Str ''index, follow'')] [],
     Element ''link'' [(''rel'', Str ''icon''), (''href'', Str ''/favicon.ico'')] []]"

definition logo_style :: "css_rule list" where
  "logo_style =
    [Rule None ''dark-mode-logo'' [(''display'', ''none'')],
     Rule None ''light-mode-logo'' [(''display'', ''none'')],
     Rule (Some (PrefersColorScheme Dark)) ''dark-mode-logo'' [(''display'', ''block'')],
     Rule (Some (PrefersColorScheme Light)) ''light-mode-logo'' [(''display'', ''block'')]]"

definition config_logo :: "node list" where
  "config_logo =
    [Element ''img'' [(''src'', Str ''/rig-dark.svg''),
                      (''style'', Obj [(''height'', ''2.5rem'')]),
                      (''alt'', Str ''Rig Logo''),
                      (''className'', Str ''dark-mode-logo'')] [],
     Element ''img'' [(''src'', Str ''/rig-light.svg''),
                      (''style'', Obj [(''height'', ''2.5rem'')]),
                      (''alt'', Str ''Rig Logo''),
                      (''className'', Str ''light-mode-logo'')] [],
     Element ''style'' [(''jsx'', Flag)] [Css logo_style]]"

definition config_footer :: "js_date \<Rightarrow> node" where
  "config_footer now =
    Element ''div'' [(''className'', Str ''flex w-full flex-col items-center sm:items-start'')]
      [Element ''div'' []
         [Element ''a'' [(''className'', Str ''nextra-focus flex items-center gap-1 text-current''),
                         (''target'', Str ''_blank''),
                         (''rel'', Str ''noreferrer''),
                         (''title'', Str ''Playgrounds homepage''),
                         (''href'', Str ''https://playgrounds.network'')]
            [Element ''span'' [] [Text (''Powered by '' @ nbsp)],
             Element ''img'' [(''src'', Str ''https://playgrounds.network/assets/PG-Logo.png''),
                              (''style'', Obj [(''height'', ''2rem''), (''display'', ''inline'')]),
                              (''alt'', Str ''Playgrounds Logo'')] []]],
       Element ''p'' [(''className'', Str ''mt-6 text-xs'')]
         [Text (copyright_sign @ '' ''), Num (getFullYear now), Text '' Rig Docs.'']]"

definition config :: "js_date \<Rightarrow> DocsThemeConfig" where
  "config now =
    \<lparr> head = config_head,
      logo = config_logo,
      project_link = ''https://github.com/0xPlaygrounds/rig'',
      chat_link = ''https://discord.gg/playgrounds'',
      editLink_content = ''Edit this page on GitHub '' @ rightwards_arrow,
      feedback_content = ''Question? Give us feedback '' @ rightwards_arrow,
      feedback_labels = ''feedback'',
      docsRepositoryBase = ''https://github.com/0xPlaygrounds/rig-docs'',
      footer_content = config_footer now \<rparr>"

section \<open>The site configuration\<close>

text \<open>
  The second source file passes an options object to \<open>nextra\<close> and a configuration
  object to the function it returns. The field \<open>output\<close> is \<open>output_mode\<close> here
  (the name is reserved), and \<open>images: { unoptimized: true }\<close> is \<open>images_unoptimized\<close>.
\<close>

record nextra_options =
  theme :: string
  themeConfig :: string
  defaultShowCopyCode :: bool
  base_path :: string

record next_config =
  output_mode :: string
  images_unoptimized :: bool

definition withNextra_options :: nextra_options where
  "withNextra_options =
    \<lparr> theme = ''nextra-theme-docs'',
      themeConfig = ''./theme.config.tsx'',
      defaultShowCopyCode = True,
      base_path = ''/rig-docs'' \<rparr>"

definition site_config :: next_config where
  "site_config = \<lparr> output_mode = ''export'', images_unoptimized = True \<rparr>"

section \<open>Reading element trees\<close>

fun tag_of :: "node \<Rightarrow> string option" where
  "tag_of (Element t as cs) = Some t"
| "tag_of n = None"

fun attr :: "string \<Rightarrow> node \<Rightarrow> attr_value option" where
  "attr k (Element t as cs) = map_of as k"
| "attr k n = None"

fun str_attr :: "string \<Rightarrow> node \<Rightarrow> string option" where
  "str_attr k n = (case attr k n of Some (Str v) \<Rightarrow> Some v | _ \<Rightarrow> None)"

text \<open>All nodes of a tree, parents before children, in document order.\<close>

fun nodes_of :: "node \<Rightarrow> node list" where
  "nodes_of (Element t as cs) = Element t as cs # concat (map nodes_of cs)"
| "nodes_of n = [n]"

definition all_nodes :: "node list \<Rightarrow> node list" where
  "all_nodes ns = concat (map nodes_of ns)"

definition elements :: "string \<Rightarrow> node list \<Rightarrow> node list" where
  "elements t ns = filter (\<lambda>n. tag_of n = Some t) (all_nodes ns)"

text \<open>What a head entry describes: a \<open>meta\<close> by its \<open>name\<close>, a \<open>link\<close> by its
  \<open>rel\<close>.\<close>

datatype descriptor = Meta string | Link string | Other

fun descriptor_of :: "node \<Rightarrow> descriptor" where
  "descriptor_of n =
     (if tag_of n = Some ''meta'' then (case str_attr ''name'' n of Some v \<Rightarrow> Meta v | None \<Rightarrow> Other)
      else if tag_of n = Some ''link'' then (case str_attr ''rel'' n of Some v \<Rightarrow> Link v | None \<Rightarrow> Other)
      else Other)"





text \<open>The values of the \<open>href\<close> and \<open>src\<close> attributes of an element.\<close>

fun url_attrs :: "node \<Rightarrow> string list" where
  "url_attrs (Element t as cs) =
     concat (map (\<lambda>(k, v). case v of Str s \<Rightarrow> (if k = ''href'' \<or> k = ''src'' then [s] else [])
                                   | _ \<Rightarrow> []) as)"
| "url_attrs n = []"

text \<open>A reference is internal to the site when it is a path from the root of the host:
  it starts with one slash, not with a scheme and not with \<open>//\<close>.\<close>

definition is_internal :: "string \<Rightarrow> bool" where
  "is_internal url = (take 1 url = ''/'' \<and> take 2 url \<noteq> ''//'')"

section \<open>The style sheet of the logo, as a browser applies it\<close>

text \<open>
  The client reports its colour scheme as \<open>Some Dark\<close> or \<open>Some Light\<close>, or reports
  neither (\<open>None\<close>); a \<open>prefers-color-scheme\<close> query matches the scheme it names.
  The sheet is scoped to the elements written beside it, the two images of the logo.
  All selectors of the sheet are single classes, so every rule has the same specificity
  and among the rules that apply the last declaration of a property wins. A declaration
  of the element's own \<open>style\<close> attribute wins over the sheet. With no declaration at all
  an \<open>img\<close> is displayed \<open>inline\<close>.
\<close>

fun split_on :: "char \<Rightarrow> string \<Rightarrow> string list" where
  "split_on c [] = [[]]"
| "split_on c (x # xs) =
     (if x = c then [] # split_on c xs
      else (case split_on c xs of w # ws \<Rightarrow> (x # w) # ws | [] \<Rightarrow> [[x]]))"

definition class_names :: "node \<Rightarrow> string list" where
  "class_names n =
     (case str_attr ''className'' n of
        Some v \<Rightarrow> filter (\<lambda>w. w \<noteq> []) (split_on CHR '' '' v)
      | None \<Rightarrow> [])"

definition declared :: "(string \<times> string) list \<Rightarrow> string \<Rightarrow> string option" where
  "declared decls prop = map_of (rev decls) prop"

fun query_matches :: "scheme option \<Rightarrow> media_query \<Rightarrow> bool" where
  "query_matches pref (PrefersColorScheme s) = (pref = Some s)"

fun rule_applies :: "scheme option \<Rightarrow> string list \<Rightarrow> css_rule \<Rightarrow> bool" where
  "rule_applies pref cls (Rule None sel ds) = (sel \<in> set cls)"
| "rule_applies pref cls (Rule (Some q) sel ds) = (sel \<in> set cls \<and> query_matches pref q)"

fun rule_decls :: "css_rule \<Rightarrow> (string \<times> string) list" where
  "rule_decls (Rule mq sel ds) = ds"

fun cascade :: "scheme option \<Rightarrow> string list \<Rightarrow> string \<Rightarrow> css_rule list \<Rightarrow> string option \<Rightarrow> string option" where
  "cascade pref cls prop [] acc = acc"
| "cascade pref cls prop (r # rs) acc =
     cascade pref cls prop rs
       (if rule_applies pref cls r
        then (case declared (rule_decls r) prop of Some v \<Rightarrow> Some v | None \<Rightarrow> acc)
        else acc)"

definition inline_style :: "node \<Rightarrow> string \<Rightarrow> string option" where
  "inline_style n prop = (case attr ''style'' n of Some (Obj ds) \<Rightarrow> declared ds prop | _ \<Rightarrow> None)"

definition computed_display :: "scheme option \<Rightarrow> css_rule list \<Rightarrow> node \<Rightarrow> string" where
  "computed_display pref sheet n =
     (case inline_style n ''display'' of
        Some v \<Rightarrow> v
      | None \<Rightarrow> (case cascade pref (class_names n) ''display'' sheet None of
                   Some v \<Rightarrow> v
                 | None \<Rightarrow> ''inline''))"

definition displayed :: "scheme option \<Rightarrow> css_rule list \<Rightarrow> node \<Rightarrow> bool" where
  "displayed pref sheet n = (computed_display pref sheet n \<noteq> ''none'')"

fun sheet_of :: "node \<Rightarrow> css_rule list" where
  "sheet_of (Css rs) = rs"
| "sheet_of n = []"

definition style_sheet :: "node list \<Rightarrow> css_rule list" where
  "style_sheet ns = concat (map sheet_of (all_nodes ns))"

definition image_sources :: "node list \<Rightarrow> string list" where
  "image_sources ns = concat (map url_attrs ns)"

text \<open>The sources of the logo images a client of the given preference sees.\<close>

definition visible_logos :: "scheme option \<Rightarrow> node list \<Rightarrow> string list" where
  "visible_logos pref lg =
     image_sources (filter (displayed pref (style_sheet lg)) (elements ''img'' lg))"

text \<open>The internal references of the theme configuration: the \<open>href\<close> and \<open>src\<close>
  of every element of its head, logo and footer that point into the site.\<close>

definition internal_refs :: "DocsThemeConfig \<Rightarrow> string list" where
  "internal_refs cfg =
     filter is_internal
       (concat (map url_attrs (all_nodes (head cfg @ logo cfg @ [footer_content cfg]))))"

section \<open>Placeholders\<close>

text \<open>
  A string is a template when it has a place to put a value in. The notations for such a
  place (\<open>{path}\<close>, \<open>${path}\<close>, \<open>{{path}}\<close>, \<open>%s\<close>, \<open>[path]\<close>, \<open><path>\<close>) all use one
  of the characters below, so a string with none of them has no placeholder of any of
  these notations.
\<close>

definition placeholder_marks :: string where
  "placeholder_marks = ''{}$%[]<>''"

definition has_placeholder :: "string \<Rightarrow> bool" where
  "has_placeholder s = (filter (\<lambda>c. c \<in> set placeholder_marks) s \<noteq> [])"

section \<open>Content documents\<close>

record ContentDocument =
  path :: string
  title :: string
  description :: string
  body :: string

text \<open>
  \<^verbatim>\<open>pages/docs/0_quickstart.mdx\<close>: its path under the content root without the
  extension, the two fields of its front matter, and the markup that follows them, which
  the model leaves as a parameter.
\<close>

definition quickstart :: "string \<Rightarrow> ContentDocument" where
  "quickstart markup =
    \<lparr> path = ''docs/0_quickstart'',
      title = ''Quickstart'',
      description = ''This section contains the quickstart guide for Rig.'',
      body = markup \<rparr>"

section \<open>Navigation\<close>

text \<open>
  Modelled from the spec: the navigation tree (section 3) is the site generator's and is
  computed from the paths of the documents alone. The segments of a path are the levels
  of nesting; documents and directories keep the order in which they come.
\<close>

datatype nav = Nav string "nav list"

fun insert_path :: "string list \<Rightarrow> nav list \<Rightarrow> nav list" where
  "insert_path [] ns = ns"
| "insert_path (s # ss) [] = [Nav s (insert_path ss [])]"
| "insert_path (s # ss) (Nav t cs # ns) =
     (if s = t then Nav t (insert_path ss cs) # ns else Nav t cs # insert_path (s # ss) ns)"

definition navigation_tree :: "string list \<Rightarrow> nav list" where
  "navigation_tree paths = foldl (\<lambda>t p. insert_path (split_on CHR ''/'' p) t) [] paths"

text \<open>An entry of the sidebar: its name, whether it is the current page, its entries
  below.\<close>

datatype side = Side string bool "side list"

fun mark :: "string list \<Rightarrow> string list \<Rightarrow> nav \<Rightarrow> side" where
  "mark pre cur (Nav s cs) = Side s (pre @ [s] = cur) (map (mark (pre @ [s]) cur) cs)"

section \<open>Page renderer and static exporter\<close>

text \<open>
  The page renderer and the static exporter are the site generator's (the \<open>nextra\<close>
  package named in the second source file, with its theme \<open>nextra-theme-docs\<close>), a
  dependency whose code is not among the source files; the sources only configure it.

  Two releases of the generator read a theme configuration file of this shape, and the
  source files do not say which one is installed. They agree on all that follows except
  on what they put into the head on their own when the theme configuration gives a head
  and no title template, as this one does:
  \<^item> release 2 writes a title, the document's title in its default template
    \<open>%s - Nextra\<close> (whose dash is an en dash), and the document's description, and then
    the head of the theme configuration;
  \<^item> release 3 writes title and description only as part of its default head, and the
    head of the theme configuration stands in the place of that default.
\<close>

datatype release = Nextra2 | Nextra3

definition en_dash :: string where
  "en_dash = [CHR 0xE2, CHR 0x80, CHR 0x93]"

definition default_title :: "string \<Rightarrow> string" where
  "default_title t = t @ '' '' @ en_dash @ '' Nextra''"

definition injected_head :: "release \<Rightarrow> ContentDocument \<Rightarrow> node list" where
  "injected_head r doc =
     (case r of
        Nextra2 \<Rightarrow>
          [Element ''title'' [] [Text (default_title (title doc))],
           Element ''meta'' [(''name'', Str ''description''),
                             (''content'', Str (description doc))] []]
      | Nextra3 \<Rightarrow> [])"

text \<open>
  The edit link of a page shows the text of the configuration and points to the page's
  path under the base address of the documentation repository. The feedback link shows
  its text and opens a new issue in that repository, under the label of the
  configuration, titled after the page. Both are kept by their parts.
\<close>

record edit_link =
  el_text :: string
  el_repository :: string
  el_path :: string

record feedback_link =
  fb_text :: string
  fb_repository :: string
  fb_labels :: string
  fb_title :: string

text \<open>
  Modelled from the spec: section 4.3. The renderer takes one document, the theme
  configuration and the navigation tree. The page has the head described above, the logo
  and the footer of the theme configuration with their elements as they were written, the
  body of the document, the sidebar built from the navigation tree with the current page
  marked, and the edit and feedback links formed from the configuration and the page.
\<close>

record page =
  page_head :: "node list"
  page_logo :: "node list"
  page_sidebar :: "side list"
  page_body :: string
  page_edit_link :: edit_link
  page_feedback_link :: feedback_link
  page_footer :: node

definition render_page :: "release \<Rightarrow> DocsThemeConfig \<Rightarrow> nav list \<Rightarrow> ContentDocument \<Rightarrow> page" where
  "render_page r cfg tree doc =
    \<lparr> page_head = injected_head r doc @ head cfg,
      page_logo = logo cfg,
      page_sidebar = map (mark [] (split_on CHR ''/'' (path doc))) tree,
      page_body = body doc,
      page_edit_link =
        \<lparr> el_text = editLink_content cfg,
          el_repository = docsRepositoryBase cfg,
          el_path = path doc \<rparr>,
      page_feedback_link =
        \<lparr> fb_text = feedback_content cfg,
          fb_repository = docsRepositoryBase cfg,
          fb_labels = feedback_labels cfg,
          fb_title = title doc \<rparr>,
      page_footer = footer_content cfg \<rparr>"

text \<open>The internal references a rendered page carries in its head, logo and footer.\<close>

definition page_refs :: "page \<Rightarrow> string list" where
  "page_refs p =
     filter is_internal
       (concat (map url_attrs (all_nodes (page_head p @ page_logo p @ [page_footer p]))))"

text \<open>
  Modelled from the spec: section 4.4. The exporter renders every document, with the
  navigation tree of all the documents' paths, and writes each page under the document's
  path, together with the static assets (a path and the bytes of the file). It exports
  only in output mode \<open>export\<close>. With image optimisation disabled the assets are copied
  as they are; otherwise each goes through the optimiser, which is a parameter.
\<close>

record export_output =
  out_pages :: "(string \<times> page) list"
  out_assets :: "(string \<times> string) list"

definition static_export ::
  "release \<Rightarrow> next_config \<Rightarrow> (string \<Rightarrow> string) \<Rightarrow> DocsThemeConfig \<Rightarrow> ContentDocument list \<Rightarrow>
   (string \<times> string) list \<Rightarrow> export_output option" where
  "static_export r nc optimise cfg docs assets =
     (if output_mode nc = ''export''
      then Some \<lparr> out_pages =
                    map (\<lambda>d. (path d, render_page r cfg (navigation_tree (map path docs)) d)) docs,
                  out_assets = (if images_unoptimized nc then assets
                                else map (\<lambda>(p, b). (p, optimise b)) assets) \<rparr>
      else None)"

text \<open>One run of the build at a reading of the clock: the theme configuration is
  evaluated at that reading and handed to the exporter with the site configuration.\<close>

definition build ::
  "release \<Rightarrow> js_date \<Rightarrow> (string \<Rightarrow> string) \<Rightarrow> ContentDocument list \<Rightarrow>
   (string \<times> string) list \<Rightarrow> export_output option" where
  "build r now optimise docs assets =
     static_export r site_config optimise (config now) docs assets"

section \<open>Facts shared by the proofs\<close>

lemma config_same_iff_year: "(config d1 = config d2) = (getFullYear d1 = getFullYear d2)"
  by (simp add: config_def config_footer_def)

lemma build_exports: "build r now optimise docs assets \<noteq> None"
  by (simp add: build_def static_export_def site_config_def)

lemma head_config: "head (config now) = config_head"
  by (simp add: config_def)

lemma logo_config: "logo (config now) = config_logo"
  by (simp add: config_def)

lemma logo_images:
  "elements ''img'' config_logo = [config_logo ! 0, config_logo ! Suc 0]"
  by (simp add: config_logo_def elements_def all_nodes_def)

lemma logo_sheet: "style_sheet config_logo = logo_style"
  by (simp add: config_logo_def style_sheet_def all_nodes_def)

lemma dark_logo_display:
  "computed_display pref logo_style (config_logo ! 0) = (if pref = Some Dark then ''block'' else ''none'')"
  by (cases pref)
     (simp_all add: config_logo_def logo_style_def computed_display_def inline_style_def
        declared_def class_names_def)

lemma light_logo_display:
  "computed_display pref logo_style (config_logo ! Suc 0) = (if pref = Some Light then ''block'' else ''none'')"
  by (cases pref)
     (simp_all add: config_logo_def logo_style_def computed_display_def inline_style_def
        declared_def class_names_def)

lemma logo_sources:
  "url_attrs (config_logo ! 0) = [''/rig-dark.svg'']" "url_attrs (config_logo ! Suc 0) = [''/rig-light.svg'']"
  by (simp_all add: config_logo_def)







lemma page_head_parts: "page_head (render_page r cfg tree doc) = injected_head r doc @ head cfg"
  by (simp add: render_page_def)

lemma page_footer_is_config: "page_footer (render_page r cfg tree doc) = footer_content cfg"
  by (simp add: render_page_def)

text \<open>The navigation tree and the sidebar of the quickstart page, as the only document.\<close>

lemma quickstart_sidebar:
  "navigation_tree [path (quickstart m)] = [Nav ''docs'' [Nav ''0_quickstart'' []]]"
  "page_sidebar (render_page r cfg (navigation_tree [path (quickstart m)]) (quickstart m))
     = [Side ''docs'' False [Side ''0_quickstart'' True []]]"
  by (simp_all add: navigation_tree_def quickstart_def render_page_def)

section \<open>Idempotence of the export\<close>

text \<open>
  C1 (as amended). With unchanged documents and an unchanged theme configuration file,
  two runs of the static export have the same theme configuration, and the same footer on
  a page, exactly when their clocks read the same calendar year; when the years differ
  and there is at least one document, the outputs of the two runs differ.
\<close>

theorem footer_year_decides:
  "(config d1 = config d2) = (getFullYear d1 = getFullYear d2) \<and>
   (page_footer (render_page r (config d1) tree doc) = page_footer (render_page r (config d2) tree doc))
     = (getFullYear d1 = getFullYear d2) \<and>
   (docs \<noteq> [] \<and> getFullYear d1 \<noteq> getFullYear d2 \<longrightarrow>
      build r d1 optimise docs assets \<noteq> build r d2 optimise docs assets)"
proof -
  have footer: "(page_footer (render_page r (config d1) tree doc)
                 = page_footer (render_page r (config d2) tree doc))
                = (getFullYear d1 = getFullYear d2)"
    by (simp add: page_footer_is_config config_def config_footer_def)
  have differ: "build r d1 optimise docs assets \<noteq> build r d2 optimise docs assets"
    if "docs \<noteq> []" and "getFullYear d1 \<noteq> getFullYear d2"
  proof
    assume same: "build r d1 optimise docs assets = build r d2 optimise docs assets"
    from that(1) obtain d ds where docs: "docs = d # ds" by (cases docs) auto
    from same docs
    have "page_footer (render_page r (config d1) (navigation_tree (map path docs)) d)
          = page_footer (render_page r (config d2) (navigation_tree (map path docs)) d)"
      by (simp add: build_def static_export_def site_config_def)
    with that(2) show False
      by (simp add: page_footer_is_config config_def config_footer_def)
  qed
  from footer differ show ?thesis
    by (simp add: config_same_iff_year)
qed

text \<open>The theorem at the quickstart page, built in 2023 and in 2026.\<close>

theorem footer_year_decides_witness:
  "config \<lparr>fullYear = 2023, month = 6, day = 15\<rparr> \<noteq> config \<lparr>fullYear = 2026, month = 6, day = 15\<rparr> \<and>
   build Nextra2 \<lparr>fullYear = 2023, month = 6, day = 15\<rparr> id [quickstart ''Rig''] [(''favicon.ico'', ''icon'')]
   \<noteq> build Nextra2 \<lparr>fullYear = 2026, month = 6, day = 15\<rparr> id [quickstart ''Rig''] [(''favicon.ico'', ''icon'')]"
  using footer_year_decides
    [of "\<lparr>fullYear = 2023, month = 6, day = 15\<rparr>" "\<lparr>fullYear = 2026, month = 6, day = 15\<rparr>"
        Nextra2 "[]" "quickstart ''Rig''" "[quickstart ''Rig'']" id "[(''favicon.ico'', ''icon'')]"]
  by (simp add: getFullYear_def)

text \<open>
  C1 as stated fails: the footer prints the year of the build, so the same document and
  the same files exported on the last day of 2024 and on the first day of 2025 give
  different outputs.
\<close>

theorem export_idempotent_counterexample:
  "build Nextra3 \<lparr>fullYear = 2024, month = 12, day = 31\<rparr> id [quickstart ''''] []
   \<noteq> build Nextra3 \<lparr>fullYear = 2025, month = 1, day = 1\<rparr> id [quickstart ''''] []"
  by (simp add: build_def static_export_def site_config_def render_page_def config_def
      config_footer_def getFullYear_def)

section \<open>Base path\<close>

text \<open>
  C2. With the base path \<open>/rig-docs\<close> configured, every internal link and asset reference
  of the output should start with it. The theme configuration has three internal
  references, the favicon and the two logo images, and none of them starts with the base
  path; elements of the theme configuration reach the page as they are written.
\<close>

theorem theme_assets_lack_base_path:
  "internal_refs (config now) = [''/favicon.ico'', ''/rig-dark.svg'', ''/rig-light.svg''] \<and>
   base_path withNextra_options = ''/rig-docs'' \<and>
   filter (prefix (base_path withNextra_options)) (internal_refs (config now)) = []"
  by (simp add: internal_refs_def config_def config_head_def config_logo_def config_footer_def
      all_nodes_def is_internal_def withNextra_options_def)

text \<open>The rendered page of every document carries the same three references.\<close>

lemma page_refs_lack_base_path:
  "page_refs (render_page r (config now) tree doc) = [''/favicon.ico'', ''/rig-dark.svg'', ''/rig-light.svg'']"
  by (cases r)
     (simp_all add: page_refs_def render_page_def injected_head_def config_def config_head_def
        config_logo_def config_footer_def all_nodes_def is_internal_def)

section \<open>Edit link and feedback link\<close>

text \<open>An address with a place for the page path is a template; the test is not vacuous.\<close>

lemma has_placeholder_example:
  "has_placeholder ''https://github.com/0xPlaygrounds/rig-docs/edit/main/{path}''"
  by (simp add: has_placeholder_def placeholder_marks_def)



section \<open>Head metadata\<close>






text \<open>
  C6. The head of the theme configuration is exactly six entries: the metadata tags
  viewport, description, author, keywords and robots, and the favicon link; the head of
  every rendered page contains them all.
\<close>

theorem theme_head_entries:
  "map descriptor_of (head (config now)) =
     [Meta ''viewport'', Meta ''description'', Meta ''author'', Meta ''keywords'',
      Meta ''robots'', Link ''icon''] \<and>
   url_attrs (last (head (config now))) = [''/favicon.ico''] \<and>
   set (head (config now)) \<subseteq> set (page_head (render_page r (config now) tree doc))"
proof -
  have "set (head (config now)) \<subseteq> set (page_head (render_page r (config now) tree doc))"
    by (simp add: page_head_parts)
  then show ?thesis
    by (simp add: head_config) (simp add: config_head_def)
qed

section \<open>Logo\<close>

text \<open>
  C7. The logo of the theme configuration has exactly two images, the dark and the light
  variant, whatever the build; a client that prefers the dark colour scheme sees the dark
  one only, a client that prefers the light scheme sees the light one only. The choice
  is made by the media queries of the style sheet that ships with the logo, from the
  preference the client reports.
\<close>

theorem logo_variants_by_preference:
  "image_sources (elements ''img'' (logo (config now))) = [''/rig-dark.svg'', ''/rig-light.svg''] \<and>
   visible_logos (Some Dark) (logo (config now)) = [''/rig-dark.svg''] \<and>
   visible_logos (Some Light) (logo (config now)) = [''/rig-light.svg'']"
  by (simp add: logo_config visible_logos_def image_sources_def logo_images logo_sheet
      displayed_def dark_logo_display light_logo_display logo_sources)

text \<open>
  C9. A client that reports neither a dark nor a light preference sees no logo image:
  both images compute to \<open>display: none\<close> for it, and for any client the dark image is
  displayed exactly under the dark preference and the light image exactly under the light
  one.
\<close>

theorem no_logo_without_preference:
  "visible_logos None (logo (config now)) = [] \<and>
   map (computed_display None (style_sheet (logo (config now)))) (elements ''img'' (logo (config now)))
     = [''none'', ''none''] \<and>
   map (displayed pref (style_sheet (logo (config now)))) (elements ''img'' (logo (config now)))
     = [pref = Some Dark, pref = Some Light]"
  by (simp add: logo_config visible_logos_def image_sources_def logo_images logo_sheet
      displayed_def dark_logo_display light_logo_display)

section \<open>Static export and assets\<close>

text \<open>
  C8. The site configuration selects the output mode \<open>export\<close> and disables image
  optimisation; the build therefore exports, and the assets of its output are the assets
  it was given, unchanged, whatever the optimiser would have done.
\<close>

theorem static_export_copies_assets:
  "output_mode site_config = ''export'' \<and> images_unoptimized site_config \<and>
   map_option out_assets (build r now optimise docs assets) = Some assets"
  by (simp add: build_def static_export_def site_config_def)

section \<open>Copy control of code blocks\<close>

text \<open>The option that asks for a copy control on code blocks is set for the whole site.
  What a code block then shows is the site generator's to decide.\<close>

lemma copy_code_option_set: "defaultShowCopyCode withNextra_options"
  by (simp add: withNextra_options_def)

end
